theory Spec2Isabelle
  imports Complex_Main
begin

section \<open>Python values, exceptions and calls\<close>

text \<open>
  The values that travel through the hook pipeline and the proxy. \<open>VNone\<close> is Python's
  \<open>None\<close>; the pipeline tests \<open>is not None\<close>, so \<open>VBool False\<close> is a value like any
  other there.
\<close>

datatype val = VNone | VBool bool | VInt int | VFloat rat | VStr string | VList "val list"

text \<open>
  The exceptions the modelled code can raise. \<open>Exception msg\<close> is the plain
  \<open>raise Exception(msg)\<close> of the proxy.
\<close>

datatype exn = AttributeError | TypeError | KeyError | IndexError | Exception string

text \<open>The \<open>*args, **kwargs\<close> of a call: positional values and keyword pairs.\<close>

type_synonym call_args = "val list \<times> (string \<times> val) list"

text \<open>
  A callable is a function of the receiver (the \<open>self\<close> it is given, \<open>None\<close> when the
  descriptor was never bound), the arguments and the world it acts on; it raises or
  returns, and leaves a new world. An after-hook also takes the base method's result.
\<close>

type_synonym ('o, 'w) pymethod = "'o option \<Rightarrow> call_args \<Rightarrow> 'w \<Rightarrow> (exn + val) \<times> 'w"

type_synonym ('o, 'w) after_hook = "'o option \<Rightarrow> val \<Rightarrow> call_args \<Rightarrow> 'w \<Rightarrow> (exn + val) \<times> 'w"

text \<open>A plain Python function: its \<open>__name__\<close> and its body.\<close>

record ('o, 'w) pyfunc =
  func_name :: string
  func_body :: "('o, 'w) pymethod"

section \<open>decorators.py: DecoratedMethod\<close>

text \<open>
  \<open>class DecoratedMethod\<close>: \<open>dm_func\<close> is \<open>_func\<close>, \<open>dm_instance\<close> is \<open>_instance\<close>.
\<close>

record ('o, 'w) DecoratedMethod =
  dm_func :: "('o, 'w) pyfunc"
  dm_instance :: "'o option"
  decorations :: "string set"
  before :: "('o, 'w) pymethod list"
  after :: "('o, 'w) after_hook list"

text \<open>
  \<open>DecoratedMethod.__init__(func, decorations, before, after)\<close>: an argument left out is
  \<open>None\<close> and gives the empty set or list.
\<close>

definition DecoratedMethod_init ::
  "('o, 'w) pyfunc \<Rightarrow> string list option \<Rightarrow> ('o, 'w) pymethod list option \<Rightarrow>
   ('o, 'w) after_hook list option \<Rightarrow> ('o, 'w) DecoratedMethod" where
  "DecoratedMethod_init f ds bs as =
     \<lparr> dm_func = f,
       dm_instance = None,
       decorations = (case ds of None \<Rightarrow> {} | Some l \<Rightarrow> set l),
       before = (case bs of None \<Rightarrow> [] | Some l \<Rightarrow> l),
       after = (case as of None \<Rightarrow> [] | Some l \<Rightarrow> l) \<rparr>"

text \<open>\<open>DecoratedMethod.__get__(obj)\<close>: store the instance, return the same method.\<close>

definition DecoratedMethod_get :: "('o, 'w) DecoratedMethod \<Rightarrow> 'o \<Rightarrow> ('o, 'w) DecoratedMethod" where
  "DecoratedMethod_get dm obj = dm\<lparr>dm_instance := Some obj\<rparr>"

text \<open>
  The first loop of \<open>__call__\<close> (lines 48-52). \<open>Inr (Some r)\<close>: a hook returned
  \<open>r\<close>, which is not \<open>None\<close>, and \<open>__call__\<close> returns it; \<open>Inr None\<close>: the loop ran to
  its end; \<open>Inl e\<close>: a hook raised \<open>e\<close>.
\<close>

fun run_before ::
  "('o, 'w) pymethod list \<Rightarrow> 'o option \<Rightarrow> call_args \<Rightarrow> 'w \<Rightarrow> (exn + val option) \<times> 'w" where
  "run_before [] i a w = (Inr None, w)"
| "run_before (callee # rest) i a w =
     (case callee i a w of
        (Inl e, w') \<Rightarrow> (Inl e, w')
      | (Inr result, w') \<Rightarrow>
          if result \<noteq> VNone then (Inr (Some result), w') else run_before rest i a w')"

text \<open>The second loop of \<open>__call__\<close> (lines 58-62), with the same reading.\<close>

fun run_after ::
  "('o, 'w) after_hook list \<Rightarrow> 'o option \<Rightarrow> val \<Rightarrow> call_args \<Rightarrow> 'w \<Rightarrow> (exn + val option) \<times> 'w" where
  "run_after [] i result a w = (Inr None, w)"
| "run_after (callee # rest) i result a w =
     (case callee i result a w of
        (Inl e, w') \<Rightarrow> (Inl e, w')
      | (Inr mutated, w') \<Rightarrow>
          if mutated \<noteq> VNone then (Inr (Some mutated), w') else run_after rest i result a w')"

text \<open>\<open>DecoratedMethod.__call__(*args, **kwargs)\<close>.\<close>

definition DecoratedMethod_call ::
  "('o, 'w) DecoratedMethod \<Rightarrow> call_args \<Rightarrow> 'w \<Rightarrow> (exn + val) \<times> 'w" where
  "DecoratedMethod_call dm a w =
     (case run_before (before dm) (dm_instance dm) a w of
        (Inl e, w1) \<Rightarrow> (Inl e, w1)
      | (Inr (Some r), w1) \<Rightarrow> (Inr r, w1)
      | (Inr None, w1) \<Rightarrow>
          (case func_body (dm_func dm) (dm_instance dm) a w1 of
             (Inl e, w2) \<Rightarrow> (Inl e, w2)
           | (Inr result, w2) \<Rightarrow>
               (case run_after (after dm) (dm_instance dm) result a w2 of
                  (Inl e, w3) \<Rightarrow> (Inl e, w3)
                | (Inr (Some mutated), w3) \<Rightarrow> (Inr mutated, w3)
                | (Inr None, w3) \<Rightarrow> (Inr result, w3))))"

subsection \<open>The vocabulary of the pipeline's specification\<close>

text \<open>
  "Every hook of the list, called in registration order with the receiver and the
  arguments, each in the world the one before left, returns \<open>None\<close>": the world they
  leave, or \<open>None\<close> when one of them raises or returns a value.
\<close>

fun all_return_null ::
  "('o, 'w) pymethod list \<Rightarrow> 'o option \<Rightarrow> call_args \<Rightarrow> 'w \<Rightarrow> 'w option" where
  "all_return_null [] i a w = Some w"
| "all_return_null (h # hs) i a w =
     (case h i a w of
        (Inr VNone, w') \<Rightarrow> all_return_null hs i a w'
      | _ \<Rightarrow> None)"

text \<open>The same for after-hooks, which are also given the base method's result.\<close>

fun after_all_return_null ::
  "('o, 'w) after_hook list \<Rightarrow> 'o option \<Rightarrow> val \<Rightarrow> call_args \<Rightarrow> 'w \<Rightarrow> 'w option" where
  "after_all_return_null [] i r a w = Some w"
| "after_all_return_null (g # gs) i r a w =
     (case g i r a w of
        (Inr VNone, w') \<Rightarrow> after_all_return_null gs i r a w'
      | _ \<Rightarrow> None)"

text \<open>
  Hooks and a base method that record their own call (who was called, with which
  receiver, base result and arguments) in a world that is the list of calls made so
  far, and return a fixed value.
\<close>

type_synonym call_log = "(string \<times> nat option \<times> val option \<times> call_args) list"

definition probe :: "string \<Rightarrow> val \<Rightarrow> (nat, call_log) pymethod" where
  "probe n ret = (\<lambda>i a w. (Inr ret, w @ [(n, i, None, a)]))"

definition probe_after :: "string \<Rightarrow> val \<Rightarrow> (nat, call_log) after_hook" where
  "probe_after n ret = (\<lambda>i r a w. (Inr ret, w @ [(n, i, Some r, a)]))"

text \<open>
  Two decorated methods built from them, both bound to the receiver \<open>5\<close>. In the first
  the second before-hook returns \<open>False\<close>; in the second every before-hook returns
  \<open>None\<close>, the base method returns \<open>1\<close> and the second after-hook returns \<open>3\<close>.
\<close>

definition some_args :: call_args where
  "some_args = ([VInt 10, VStr ''x''], [(''k'', VBool True)])"

definition vetoed_method :: "(nat, call_log) DecoratedMethod" where
  "vetoed_method =
     \<lparr> dm_func = \<lparr>func_name = ''base'', func_body = probe ''base'' (VInt 1)\<rparr>,
       dm_instance = Some 5,
       decorations = {},
       before = [probe ''h0'' VNone, probe ''h1'' (VBool False), probe ''h2'' (VInt 9)],
       after = [probe_after ''g0'' (VInt 3)] \<rparr>"

definition passed_method :: "(nat, call_log) DecoratedMethod" where
  "passed_method =
     \<lparr> dm_func = \<lparr>func_name = ''base'', func_body = probe ''base'' (VInt 1)\<rparr>,
       dm_instance = Some 5,
       decorations = {},
       before = [probe ''h0'' VNone, probe ''h1'' VNone],
       after = [probe_after ''g0'' VNone, probe_after ''g1'' (VInt 3), probe_after ''g2'' (VInt 4)] \<rparr>"

definition quiet_method :: "(nat, call_log) DecoratedMethod" where
  "quiet_method = passed_method\<lparr>after := [probe_after ''g0'' VNone, probe_after ''g1'' VNone]\<rparr>"

section \<open>decorators.py: the coordination service seen from a hook\<close>

text \<open>
  \<open>self._redis\<close> is a client object: the hooks call its methods and read what they
  return. Each operation is a function of the world \<open>'w\<close> (the store, and whatever
  other callers of the cluster do to it meanwhile), so that a property proved for every
  client holds for every interleaving with other callers. Values of lock keys are
  expiry times; \<open>get\<close> and \<open>getset\<close> answer \<open>None\<close> for an absent key. The times are
  exact rationals here: the rounding of Python's floats, and the text form in which
  the store keeps a number, are not modelled.
\<close>

record 'w redis_client =
  setnx :: "string \<Rightarrow> rat \<Rightarrow> 'w \<Rightarrow> bool \<times> 'w"
  get :: "string \<Rightarrow> 'w \<Rightarrow> rat option \<times> 'w"
  getset :: "string \<Rightarrow> rat \<Rightarrow> 'w \<Rightarrow> rat option \<times> 'w"
  expire :: "string \<Rightarrow> nat \<Rightarrow> 'w \<Rightarrow> bool \<times> 'w"
  delete :: "string \<Rightarrow> 'w \<Rightarrow> nat \<times> 'w"

text \<open>
  The receiver of a decorated method, as far as the hooks look at it: its \<open>_redis\<close>
  attribute, \<open>None\<close> when the object has none.
\<close>

record 'w actor =
  obj_redis :: "'w redis_client option"

text \<open>
  \<open>self._redis\<close>: an AttributeError on \<open>None\<close> (a method called unbound) and on an
  object without the attribute.
\<close>

definition client_of :: "'w actor option \<Rightarrow> exn + 'w redis_client" where
  "client_of self =
     (case self of
        None \<Rightarrow> Inl AttributeError
      | Some obj \<Rightarrow> (case obj_redis obj of None \<Rightarrow> Inl AttributeError | Some r \<Rightarrow> Inr r))"

text \<open>\<open>float(x)\<close> of what the store answered: \<open>float(None)\<close> is a TypeError.\<close>

definition float_of :: "rat option \<Rightarrow> exn + rat" where
  "float_of x = (case x of None \<Rightarrow> Inl TypeError | Some v \<Rightarrow> Inr v)"

section \<open>decorators.py: blocking and singular\<close>

text \<open>
  What a decorator is applied to: a plain function, or an object of class
  DecoratedMethod, which is a reference into the heap of such objects (they are
  mutated in place and shared).
\<close>

datatype ('o, 'w) callable = Function "('o, 'w) pyfunc" | Decorated nat

record ('o, 'w) heap =
  objs :: "nat \<Rightarrow> ('o, 'w) DecoratedMethod"
  next_free :: nat

text \<open>Creating an object: it takes the next free address.\<close>

definition new_object ::
  "('o, 'w) DecoratedMethod \<Rightarrow> ('o, 'w) heap \<Rightarrow> ('o, 'w) callable \<times> ('o, 'w) heap" where
  "new_object dm h =
     (Decorated (next_free h),
      h\<lparr>objs := (objs h)(next_free h := dm), next_free := Suc (next_free h)\<rparr>)"

text \<open>
  \<open>func.__name__\<close>: a function has a name; DecoratedMethod defines no \<open>__name__\<close>
  (neither the class body nor \<open>__init__\<close> sets one, and there is no \<open>__getattr__\<close>),
  so on such an object the lookup raises AttributeError.
\<close>

fun name_of :: "('o, 'w) callable \<Rightarrow> exn + string" where
  "name_of (Function f) = Inr (func_name f)"
| "name_of (Decorated a) = Inl AttributeError"

text \<open>\<open>blocking(func)\<close>.\<close>

fun blocking :: "('o, 'w) callable \<Rightarrow> ('o, 'w) heap \<Rightarrow> ('o, 'w) callable \<times> ('o, 'w) heap" where
  "blocking (Decorated a) h =
     (Decorated a,
      h\<lparr>objs := (objs h)(a := (objs h a)\<lparr>decorations := insert ''blocking'' (decorations (objs h a))\<rparr>)\<rparr>)"
| "blocking (Function f) h =
     new_object (DecoratedMethod_init f (Some [''blocking'']) None None) h"

text \<open>The two constants of \<open>singular\<close>: \<open>expiry = 2\<close> and \<open>context = None\<close>.\<close>

definition expiry :: nat where
  "expiry = 2"

definition singular_context :: "string option" where
  "singular_context = None"

text \<open>
  \<open>'global.lock' if not context else context\<close> (\<open>None\<close> and the empty string are
  falsy), and \<open>'%s:%s' % (lock_context, name)\<close>.
\<close>

definition lock_context :: "string option \<Rightarrow> string" where
  "lock_context c =
     (case c of None \<Rightarrow> ''global.lock'' | Some s \<Rightarrow> if s = [] then ''global.lock'' else s)"

definition lock_name :: "string option \<Rightarrow> string \<Rightarrow> string" where
  "lock_name c n = lock_context c @ '':'' @ n"

text \<open>
  Line 123, where both successful paths of \<open>before_singular\<close> end: the TTL is set and
  the function falls off its end, returning \<open>None\<close>.
\<close>

definition give_ttl :: "'w redis_client \<Rightarrow> string \<Rightarrow> 'w \<Rightarrow> (exn + val) \<times> 'w" where
  "give_ttl r k w = (Inr VNone, snd (expire r k expiry w))"

text \<open>
  \<open>before_singular(self, *args, **kwargs)\<close>, a closure over \<open>func\<close>; \<open>time\<close> reads the
  clock of the world.
\<close>

definition before_singular ::
  "('w \<Rightarrow> rat) \<Rightarrow> ('w actor, 'w) callable \<Rightarrow> ('w actor, 'w) pymethod" where
  "before_singular time func self a w =
     (let current = time w;
          lock_expires = current + of_nat expiry + 1
      in case name_of func of
           Inl e \<Rightarrow> (Inl e, w)
         | Inr n \<Rightarrow>
             let lock = lock_name singular_context n
             in case client_of self of
                  Inl e \<Rightarrow> (Inl e, w)
                | Inr r \<Rightarrow>
                    (case setnx r lock lock_expires w of
                       (True, w1) \<Rightarrow> give_ttl r lock w1
                     | (False, w1) \<Rightarrow>
                         (case get r lock w1 of (x, w2) \<Rightarrow>
                            (case float_of x of
                               Inl e \<Rightarrow> (Inl e, w2)
                             | Inr v \<Rightarrow>
                                 if current < v then (Inr (VBool False), w2)
                                 else
                                   (case getset r lock lock_expires w2 of (y, w3) \<Rightarrow>
                                      (case float_of y of
                                         Inl e \<Rightarrow> (Inl e, w3)
                                       | Inr v' \<Rightarrow>
                                           if current < v' then (Inr (VBool False), w3)
                                           else give_ttl r lock w3))))))"

text \<open>\<open>after_singular(self, result, *args, **kwargs)\<close>.\<close>

definition after_singular :: "('w actor, 'w) callable \<Rightarrow> ('w actor, 'w) after_hook" where
  "after_singular func self result a w =
     (case name_of func of
        Inl e \<Rightarrow> (Inl e, w)
      | Inr n \<Rightarrow>
          let lock = lock_name singular_context n
          in case client_of self of
               Inl e \<Rightarrow> (Inl e, w)
             | Inr r \<Rightarrow> (Inr VNone, snd (delete r lock w)))"

text \<open>\<open>singular(func)\<close>.\<close>

fun singular ::
  "('w \<Rightarrow> rat) \<Rightarrow> ('w actor, 'w) callable \<Rightarrow> ('w actor, 'w) heap \<Rightarrow>
   ('w actor, 'w) callable \<times> ('w actor, 'w) heap" where
  "singular time (Decorated a) h =
     (Decorated a,
      h\<lparr>objs := (objs h)(a := (objs h a)
          \<lparr>decorations := insert ''singular'' (decorations (objs h a)),
           before := before (objs h a) @ [before_singular time (Decorated a)],
           after := after (objs h a) @ [after_singular (Decorated a)]\<rparr>)\<rparr>)"
| "singular time (Function f) h =
     new_object
       (DecoratedMethod_init f (Some [''singular''])
          (Some [before_singular time (Function f)]) (Some [after_singular (Function f)])) h"

section \<open>A store to run the hooks on\<close>

text \<open>
  The key-value commands of the coordination service on a store that nobody else
  touches: a key holds a value and, once \<open>expire\<close> was called, a TTL. SETNX writes only
  an absent key; GETSET answers the old value and writes the new one, which clears the
  TTL; EXPIRE and DEL answer whether the key was there.
\<close>

record store =
  clock :: rat
  kv :: "string \<rightharpoonup> rat \<times> nat option"

definition StrictRedis :: "store redis_client" where
  "StrictRedis =
     \<lparr> setnx = (\<lambda>k v w. case kv w k of
                  None \<Rightarrow> (True, w\<lparr>kv := (kv w)(k \<mapsto> (v, None))\<rparr>)
                | Some _ \<Rightarrow> (False, w)),
       get = (\<lambda>k w. (map_option fst (kv w k), w)),
       getset = (\<lambda>k v w. (map_option fst (kv w k), w\<lparr>kv := (kv w)(k \<mapsto> (v, None))\<rparr>)),
       expire = (\<lambda>k t w. case kv w k of
                  None \<Rightarrow> (False, w)
                | Some (v, _) \<Rightarrow> (True, w\<lparr>kv := (kv w)(k \<mapsto> (v, Some t))\<rparr>)),
       delete = (\<lambda>k w. case kv w k of
                  None \<Rightarrow> (0, w)
                | Some _ \<Rightarrow> (1, w\<lparr>kv := (kv w)(k := None)\<rparr>)) \<rparr>"

text \<open>
  The same store with a competitor: right after this client's GET of a key, another
  caller of the cluster writes its own expiry (its clock reading plus 3) to that key.
\<close>

definition ContendedRedis :: "store redis_client" where
  "ContendedRedis =
     StrictRedis
       \<lparr> get := (\<lambda>k w. (map_option fst (kv w k), w\<lparr>kv := (kv w)(k \<mapsto> (clock w + 3, None))\<rparr>)) \<rparr>"

section \<open>actors/proxy.py: ActorProxy\<close>

text \<open>
  The tuple \<open>(proxyid, queue, method_name, args, kwargs)\<close> that \<open>_proxy\<close> pickles, and
  the tuple \<open>(queue, value)\<close> that \<open>_handler\<close> unpickles. The pickling itself is not
  modelled: a message is the tuple.
\<close>

record request =
  sender :: string
  reply_slot :: string
  method_name :: string
  arguments :: call_args

type_synonym response = "string \<times> val"

text \<open>
  An ActorProxy object and the pub/sub side of the coordination service it talks to.
  \<open>response_queues\<close> is the dict \<open>_response_queues\<close>; its values are Queue objects,
  which are references into \<open>queues\<close> (a Queue outlives its dict entry: the caller of
  \<open>_proxy\<close> holds it). \<open>subscribers\<close> is the number of subscribers of each channel,
  \<open>published\<close> the publish calls made so far, \<open>proxied\<close> the names of the methods
  installed on the proxy.
\<close>

record proxy =
  uuid :: string
  proxyid :: string
  response_queues :: "string \<rightharpoonup> nat"
  queues :: "nat \<Rightarrow> val list"
  next_queue :: nat
  subscribers :: "string \<Rightarrow> nat"
  published :: "(string \<times> request) list"
  proxied :: "string list"

text \<open>
  \<open>_handler(message)\<close>, on the unpickled \<open>data\<close>. The subscript
  \<open>self._response_queues[queue]\<close> raises KeyError for a key the dict does not hold,
  before \<open>put\<close> and \<open>pop\<close> are reached.
\<close>

definition ActorProxy_handler :: "proxy \<Rightarrow> response \<Rightarrow> (exn + unit) \<times> proxy" where
  "ActorProxy_handler p data =
     (let queue = fst data
      in case response_queues p queue of
           None \<Rightarrow> (Inl KeyError, p)
         | Some q \<Rightarrow>
             (Inr (),
              p\<lparr>queues := (queues p)(q := queues p q @ [snd data]),
                response_queues := (response_queues p)(queue := None)\<rparr>))"

text \<open>
  Lines 114-119 of \<open>_proxy\<close>: the slot id is drawn (\<open>fresh\<close> is what \<open>str(uuid4())\<close>
  gives) and the request is published; the count of subscribers comes back.
\<close>

definition proxy_publish :: "proxy \<Rightarrow> string \<Rightarrow> string \<Rightarrow> call_args \<Rightarrow> nat \<times> proxy" where
  "proxy_publish p fresh m a =
     (let queue = fresh;
          channel = ''actor:'' @ uuid p;
          msg = \<lparr>sender = proxyid p, reply_slot = queue, method_name = m, arguments = a\<rparr>
      in (subscribers p channel, p\<lparr>published := published p @ [(channel, msg)]\<rparr>))"

text \<open>
  \<open>_proxy(method_name, *args, **kwargs)\<close>: lines 114-119, then the check of the count
  and the new Queue, which is returned.
\<close>

definition ActorProxy_proxy :: "proxy \<Rightarrow> string \<Rightarrow> string \<Rightarrow> call_args \<Rightarrow> (exn + nat) \<times> proxy" where
  "ActorProxy_proxy p fresh m a =
     (case proxy_publish p fresh m a of (count, p1) \<Rightarrow>
        if count = 0 then (Inl (Exception ''No such actor''), p1)
        else
          (Inr (next_queue p1),
           p1\<lparr>queues := (queues p1)(next_queue p1 := []),
              next_queue := Suc (next_queue p1),
              response_queues := (response_queues p1)(fresh \<mapsto> next_queue p1)\<rparr>))"

text \<open>
  What the listener thread does with one message: \<open>get_message\<close> hands it to
  \<open>_handler\<close>; an exception of the handler ends the thread and leaves the proxy as it
  was.
\<close>

definition listener_receives :: "response \<Rightarrow> proxy \<Rightarrow> proxy" where
  "listener_receives data p = snd (ActorProxy_handler p data)"

text \<open>
  \<open>_proxy\<close> with the listener thread running in between: \<open>meanwhile\<close> is what that
  thread does to the proxy after the publish of line 116 has returned and before the
  check of line 121. With a thread that does nothing this is \<open>ActorProxy_proxy\<close>.
\<close>

definition ActorProxy_proxy_meanwhile ::
  "(proxy \<Rightarrow> proxy) \<Rightarrow> proxy \<Rightarrow> string \<Rightarrow> string \<Rightarrow> call_args \<Rightarrow> (exn + nat) \<times> proxy" where
  "ActorProxy_proxy_meanwhile meanwhile p fresh m a =
     (case proxy_publish p fresh m a of (count, p0) \<Rightarrow>
        (let p1 = meanwhile p0
         in if count = 0 then (Inl (Exception ''No such actor''), p1)
            else
              (Inr (next_queue p1),
               p1\<lparr>queues := (queues p1)(next_queue p1 := []),
                  next_queue := Suc (next_queue p1),
                  response_queues := (response_queues p1)(fresh \<mapsto> next_queue p1)\<rparr>)))"

text \<open>
  The \<open>actor\<close> argument of the constructor: \<open>None\<close>, an instance of the Actor class
  (with its \<open>uuid\<close> and the names \<open>inspect.getmembers\<close> finds on it), or any other
  object. The Actor class is not part of the sources read here; only
  \<open>isinstance(actor, Actor)\<close>, \<open>actor.uuid\<close> and the method names are used.
\<close>

datatype actor_arg = NoActor | ActorInstance string "string list" | OtherObject

text \<open>How a call ends: it returns, it raises, or it waits for ever.\<close>

datatype 'a outcome = Returns 'a | Raises exn | Blocks

text \<open>
  Lines 84-88: a method is installed for each name that does not start with an
  underscore; \<open>name[0]\<close> of an empty name raises IndexError.
\<close>

fun install :: "string list \<Rightarrow> string list \<Rightarrow> exn + string list" where
  "install [] done = Inr done"
| "install (name # rest) done =
     (case name of
        [] \<Rightarrow> Inl IndexError
      | c # _ \<Rightarrow> if c = CHR ''_'' then install rest done else install rest (done @ [name]))"

text \<open>
  \<open>ActorProxy.__init__(actor, uuid)\<close>. \<open>pid\<close> and \<open>fresh\<close> are the two ids drawn from
  \<open>uuid4\<close>, \<open>subs\<close> the subscribers there are before the proxy subscribes to its own
  channel, and \<open>reply\<close> what the remote actor answers to \<open>_get_methods\<close> (\<open>None\<close>: it
  never answers, and \<open>Queue.get\<close> waits for ever).
\<close>

definition ActorProxy_init ::
  "actor_arg \<Rightarrow> val \<Rightarrow> string \<Rightarrow> string \<Rightarrow> (string \<Rightarrow> nat) \<Rightarrow> string list option \<Rightarrow> proxy outcome" where
  "ActorProxy_init actor uuid_arg pid fresh subs reply =
     (let p0 = \<lparr>uuid = [], proxyid = pid, response_queues = Map.empty, queues = (\<lambda>_. []),
                next_queue = 0,
                subscribers = subs(''proxy:'' @ pid := Suc (subs (''proxy:'' @ pid))),
                published = [], proxied = []\<rparr>;
          finish = (\<lambda>p names. case install names [] of
                                 Inl e \<Rightarrow> Raises e
                               | Inr ms \<Rightarrow> Returns (p\<lparr>proxied := ms\<rparr>))
      in case actor of
           ActorInstance u names \<Rightarrow> finish (p0\<lparr>uuid := u\<rparr>) names
         | _ \<Rightarrow>
             (case uuid_arg of
                VStr u \<Rightarrow>
                  (case ActorProxy_proxy (p0\<lparr>uuid := u\<rparr>) fresh ''_get_methods'' ([], []) of
                     (Inl e, p1) \<Rightarrow> Raises e
                   | (Inr q, p1) \<Rightarrow>
                       (case reply of
                          None \<Rightarrow> Blocks
                        | Some names \<Rightarrow>
                            (case ActorProxy_handler p1 (fresh, VList (map VStr names)) of
                               (Inl e, p2) \<Rightarrow> Blocks
                             | (Inr _, p2) \<Rightarrow>
                                 finish (p2\<lparr>queues := (queues p2)(q := tl (queues p2 q))\<rparr>) names)))
              | _ \<Rightarrow> Raises (Exception ''No actor or UUID provided'')))"

section \<open>Objects to run the code on\<close>

text \<open>
  An actor method \<open>incr\<close> that returns \<open>1\<close>, an actor whose \<open>_redis\<close> is the store
  above, one whose \<open>_redis\<close> is the store with a competitor, and a heap without
  objects (its cells hold an object that no reference reaches).
\<close>

definition incr :: "(store actor, store) pyfunc" where
  "incr = \<lparr>func_name = ''incr'', func_body = (\<lambda>self a w. (Inr (VInt 1), w))\<rparr>"

definition worker :: "store actor" where
  "worker = \<lparr>obj_redis = Some StrictRedis\<rparr>"

definition contending_worker :: "store actor" where
  "contending_worker = \<lparr>obj_redis = Some ContendedRedis\<rparr>"

definition no_objects :: "(store actor, store) heap" where
  "no_objects = \<lparr>objs = (\<lambda>_. DecoratedMethod_init incr None None None), next_free = 0\<rparr>"


definition stacked_incr :: "(store actor, store) DecoratedMethod" where
  "stacked_incr =
     (case blocking (Function incr) no_objects of
        (d, h1) \<Rightarrow>
          (case singular clock d h1 of
             (d', h2) \<Rightarrow> DecoratedMethod_get (objs h2 0) worker))"

text \<open>
  A proxy of the actor \<open>a1\<close>, which listens on its channel, with no call pending; the
  same proxy when nobody listens; and the first with the slot \<open>s1\<close> pending on the
  Queue \<open>0\<close>.
\<close>

definition live_proxy :: proxy where
  "live_proxy =
     \<lparr> uuid = ''a1'', proxyid = ''p1'', response_queues = Map.empty, queues = (\<lambda>_. []),
       next_queue = 0,
       subscribers = (\<lambda>c. if c = ''actor:a1'' \<or> c = ''proxy:p1'' then 1 else 0),
       published = [], proxied = [''ping''] \<rparr>"

definition orphan_proxy :: proxy where
  "orphan_proxy = live_proxy\<lparr>subscribers := (\<lambda>c. if c = ''proxy:p1'' then 1 else 0)\<rparr>"

definition waiting_proxy :: proxy where
  "waiting_proxy = live_proxy\<lparr>response_queues := [''s1'' \<mapsto> 0], next_queue := 1\<rparr>"

section \<open>The hook pipeline\<close>

lemma run_before_append_veto:
  "all_return_null pre i a w = Some w1 \<Longrightarrow> h i a w1 = (Inr v, w2) \<Longrightarrow> v \<noteq> VNone \<Longrightarrow>
   run_before (pre @ h # post) i a w = (Inr (Some v), w2)"
proof (induction pre arbitrary: w)
  case Nil
  then show ?case by simp
next
  case (Cons p pre)
  then show ?case
    by (auto split: prod.splits sum.splits val.splits)
qed

lemma run_before_all_null:
  "all_return_null hs i a w = Some w1 \<Longrightarrow> run_before hs i a w = (Inr None, w1)"
proof (induction hs arbitrary: w)
  case Nil
  then show ?case by simp
next
  case (Cons h hs)
  then show ?case
    by (auto split: prod.splits sum.splits val.splits)
qed

lemma run_after_append_override:
  "after_all_return_null pre i r a w = Some w1 \<Longrightarrow> g i r a w1 = (Inr m, w2) \<Longrightarrow> m \<noteq> VNone \<Longrightarrow>
   run_after (pre @ g # post) i r a w = (Inr (Some m), w2)"
proof (induction pre arbitrary: w)
  case Nil
  then show ?case by simp
next
  case (Cons p pre)
  then show ?case
    by (auto split: prod.splits sum.splits val.splits)
qed

lemma run_after_all_null:
  "after_all_return_null gs i r a w = Some w1 \<Longrightarrow> run_after gs i r a w = (Inr None, w1)"
proof (induction gs arbitrary: w)
  case Nil
  then show ?case by simp
next
  case (Cons g gs)
  then show ?case
    by (auto split: prod.splits sum.splits val.splits)
qed

text \<open>
  C2. The before-hooks are called in registration order with the stored receiver and
  the original arguments, each in the world its predecessor left. When the hooks
  \<open>pre\<close> registered before \<open>h\<close> all return \<open>None\<close> and \<open>h\<close> returns a value \<open>v\<close> that is
  not \<open>None\<close>, the call returns \<open>v\<close> in the world \<open>h\<close> left: whatever the later
  before-hooks \<open>post\<close>, the base method and the after-hooks are, none of them runs.
  When every before-hook returns \<open>None\<close>, the base method is applied, once, to the
  receiver, the original arguments and the world the hooks left, and the call goes on
  from its outcome.
\<close>

theorem before_hooks_short_circuit:
  "(before dm = pre @ h # post \<and>
    all_return_null pre (dm_instance dm) a w = Some w1 \<and>
    h (dm_instance dm) a w1 = (Inr v, w2) \<and> v \<noteq> VNone
      \<longrightarrow> DecoratedMethod_call dm a w = (Inr v, w2))
   \<and>
   (all_return_null (before dm) (dm_instance dm) a w = Some w'
      \<longrightarrow> DecoratedMethod_call dm a w =
            (case func_body (dm_func dm) (dm_instance dm) a w' of
               (Inl e, w'') \<Rightarrow> (Inl e, w'')
             | (Inr result, w'') \<Rightarrow>
                 (case run_after (after dm) (dm_instance dm) result a w'' of
                    (Inl e, w3) \<Rightarrow> (Inl e, w3)
                  | (Inr (Some mutated), w3) \<Rightarrow> (Inr mutated, w3)
                  | (Inr None, w3) \<Rightarrow> (Inr result, w3))))"
proof (intro conjI impI)
  assume "before dm = pre @ h # post \<and>
    all_return_null pre (dm_instance dm) a w = Some w1 \<and>
    h (dm_instance dm) a w1 = (Inr v, w2) \<and> v \<noteq> VNone"
  then have "run_before (before dm) (dm_instance dm) a w = (Inr (Some v), w2)"
    using run_before_append_veto [of pre "dm_instance dm" a w w1 h v w2 post] by simp
  then show "DecoratedMethod_call dm a w = (Inr v, w2)"
    by (simp add: DecoratedMethod_call_def)
next
  assume "all_return_null (before dm) (dm_instance dm) a w = Some w'"
  then have "run_before (before dm) (dm_instance dm) a w = (Inr None, w')"
    by (rule run_before_all_null)
  then show "DecoratedMethod_call dm a w =
            (case func_body (dm_func dm) (dm_instance dm) a w' of
               (Inl e, w'') \<Rightarrow> (Inl e, w'')
             | (Inr result, w'') \<Rightarrow>
                 (case run_after (after dm) (dm_instance dm) result a w'' of
                    (Inl e, w3) \<Rightarrow> (Inl e, w3)
                  | (Inr (Some mutated), w3) \<Rightarrow> (Inr mutated, w3)
                  | (Inr None, w3) \<Rightarrow> (Inr result, w3)))"
    by (simp add: DecoratedMethod_call_def)
qed

theorem before_hooks_short_circuit_witness:
  "DecoratedMethod_call vetoed_method some_args [] =
     (Inr (VBool False), [(''h0'', Some 5, None, some_args), (''h1'', Some 5, None, some_args)])
   \<and> DecoratedMethod_call (passed_method\<lparr>after := []\<rparr>) some_args [] =
     (Inr (VInt 1),
      [(''h0'', Some 5, None, some_args), (''h1'', Some 5, None, some_args),
       (''base'', Some 5, None, some_args)])"
proof
  have b: "before vetoed_method = [probe ''h0'' VNone] @ probe ''h1'' (VBool False) # [probe ''h2'' (VInt 9)]"
    by (simp add: vetoed_method_def)
  have p: "all_return_null [probe ''h0'' VNone] (dm_instance vetoed_method) some_args [] =
             Some [(''h0'', Some 5, None, some_args)]"
    by (simp add: vetoed_method_def probe_def)
  have h: "probe ''h1'' (VBool False) (dm_instance vetoed_method) some_args [(''h0'', Some 5, None, some_args)] =
             (Inr (VBool False), [(''h0'', Some 5, None, some_args), (''h1'', Some 5, None, some_args)])"
    by (simp add: vetoed_method_def probe_def)
  show "DecoratedMethod_call vetoed_method some_args [] =
     (Inr (VBool False), [(''h0'', Some 5, None, some_args), (''h1'', Some 5, None, some_args)])"
    using before_hooks_short_circuit
      [of vetoed_method "[probe ''h0'' VNone]" "probe ''h1'' (VBool False)" "[probe ''h2'' (VInt 9)]"
          some_args "[]" "[(''h0'', Some 5, None, some_args)]" "VBool False"
          "[(''h0'', Some 5, None, some_args), (''h1'', Some 5, None, some_args)]"]
      b p h
    by simp
next
  have q: "all_return_null (before (passed_method\<lparr>after := []\<rparr>))
             (dm_instance (passed_method\<lparr>after := []\<rparr>)) some_args [] =
           Some [(''h0'', Some 5, None, some_args), (''h1'', Some 5, None, some_args)]"
    by (simp add: passed_method_def probe_def)
  show "DecoratedMethod_call (passed_method\<lparr>after := []\<rparr>) some_args [] =
     (Inr (VInt 1),
      [(''h0'', Some 5, None, some_args), (''h1'', Some 5, None, some_args),
       (''base'', Some 5, None, some_args)])"
    using before_hooks_short_circuit
      [of "passed_method\<lparr>after := []\<rparr>" _ _ _ some_args "[]" _ _ _
          "[(''h0'', Some 5, None, some_args), (''h1'', Some 5, None, some_args)]"]
      q
    by (simp add: passed_method_def probe_def)
qed

text \<open>
  C3. In a call where every before-hook returned \<open>None\<close> and the base method returned
  \<open>r\<close>, the after-hooks are called in registration order with the receiver, \<open>r\<close> and
  the original arguments. When the hooks \<open>pre\<close> registered before \<open>g\<close> all return
  \<open>None\<close> and \<open>g\<close> returns a value \<open>m\<close> that is not \<open>None\<close>, the call returns \<open>m\<close> in the
  world \<open>g\<close> left, whatever the remaining after-hooks \<open>post\<close> are; when every after-hook
  returns \<open>None\<close>, the call returns \<open>r\<close>.
\<close>

theorem after_hooks_override:
  assumes "all_return_null (before dm) (dm_instance dm) a w = Some w1"
    and "func_body (dm_func dm) (dm_instance dm) a w1 = (Inr r, w2)"
  shows "(after dm = pre @ g # post \<and>
          after_all_return_null pre (dm_instance dm) r a w2 = Some w3 \<and>
          g (dm_instance dm) r a w3 = (Inr m, w4) \<and> m \<noteq> VNone
            \<longrightarrow> DecoratedMethod_call dm a w = (Inr m, w4))
         \<and>
         (after_all_return_null (after dm) (dm_instance dm) r a w2 = Some w'
            \<longrightarrow> DecoratedMethod_call dm a w = (Inr r, w'))"
proof -
  have b: "run_before (before dm) (dm_instance dm) a w = (Inr None, w1)"
    using assms(1) by (rule run_before_all_null)
  show ?thesis
  proof (intro conjI impI)
    assume "after dm = pre @ g # post \<and>
          after_all_return_null pre (dm_instance dm) r a w2 = Some w3 \<and>
          g (dm_instance dm) r a w3 = (Inr m, w4) \<and> m \<noteq> VNone"
    then have "run_after (after dm) (dm_instance dm) r a w2 = (Inr (Some m), w4)"
      using run_after_append_override [of pre "dm_instance dm" r a w2 w3 g m w4 post] by simp
    then show "DecoratedMethod_call dm a w = (Inr m, w4)"
      using b assms(2) by (simp add: DecoratedMethod_call_def)
  next
    assume "after_all_return_null (after dm) (dm_instance dm) r a w2 = Some w'"
    then have "run_after (after dm) (dm_instance dm) r a w2 = (Inr None, w')"
      by (rule run_after_all_null)
    then show "DecoratedMethod_call dm a w = (Inr r, w')"
      using b assms(2) by (simp add: DecoratedMethod_call_def)
  qed
qed

theorem after_hooks_override_witness:
  "DecoratedMethod_call passed_method some_args [] =
     (Inr (VInt 3),
      [(''h0'', Some 5, None, some_args), (''h1'', Some 5, None, some_args),
       (''base'', Some 5, None, some_args),
       (''g0'', Some 5, Some (VInt 1), some_args), (''g1'', Some 5, Some (VInt 1), some_args)])
   \<and> DecoratedMethod_call quiet_method some_args [] =
     (Inr (VInt 1),
      [(''h0'', Some 5, None, some_args), (''h1'', Some 5, None, some_args),
       (''base'', Some 5, None, some_args),
       (''g0'', Some 5, Some (VInt 1), some_args), (''g1'', Some 5, Some (VInt 1), some_args)])"
proof
  let ?w1 = "[(''h0'', Some 5, None, some_args), (''h1'', Some 5, None, some_args)]"
  let ?w2 = "?w1 @ [(''base'', Some 5, None, some_args)]"
  let ?w3 = "?w2 @ [(''g0'', Some 5, Some (VInt 1), some_args)]"
  let ?w4 = "?w3 @ [(''g1'', Some 5, Some (VInt 1), some_args)]"
  have b: "all_return_null (before passed_method) (dm_instance passed_method) some_args [] = Some ?w1"
    by (simp add: passed_method_def probe_def)
  have f: "func_body (dm_func passed_method) (dm_instance passed_method) some_args ?w1 = (Inr (VInt 1), ?w2)"
    by (simp add: passed_method_def probe_def)
  have a: "after passed_method =
             [probe_after ''g0'' VNone] @ probe_after ''g1'' (VInt 3) # [probe_after ''g2'' (VInt 4)]"
    by (simp add: passed_method_def)
  have p: "after_all_return_null [probe_after ''g0'' VNone] (dm_instance passed_method) (VInt 1) some_args ?w2
             = Some ?w3"
    by (simp add: passed_method_def probe_after_def)
  have g: "probe_after ''g1'' (VInt 3) (dm_instance passed_method) (VInt 1) some_args ?w3 = (Inr (VInt 3), ?w4)"
    by (simp add: passed_method_def probe_after_def)
  show "DecoratedMethod_call passed_method some_args [] =
     (Inr (VInt 3),
      [(''h0'', Some 5, None, some_args), (''h1'', Some 5, None, some_args),
       (''base'', Some 5, None, some_args),
       (''g0'', Some 5, Some (VInt 1), some_args), (''g1'', Some 5, Some (VInt 1), some_args)])"
    using after_hooks_override
      [OF b f, of "[probe_after ''g0'' VNone]" "probe_after ''g1'' (VInt 3)"
         "[probe_after ''g2'' (VInt 4)]" ?w3 "VInt 3" ?w4]
      a p g
    by simp
next
  let ?w1 = "[(''h0'', Some 5, None, some_args), (''h1'', Some 5, None, some_args)]"
  let ?w2 = "?w1 @ [(''base'', Some 5, None, some_args)]"
  let ?w4 = "?w2 @ [(''g0'', Some 5, Some (VInt 1), some_args), (''g1'', Some 5, Some (VInt 1), some_args)]"
  have b: "all_return_null (before quiet_method) (dm_instance quiet_method) some_args [] = Some ?w1"
    by (simp add: quiet_method_def passed_method_def probe_def)
  have f: "func_body (dm_func quiet_method) (dm_instance quiet_method) some_args ?w1 = (Inr (VInt 1), ?w2)"
    by (simp add: quiet_method_def passed_method_def probe_def)
  have q: "after_all_return_null (after quiet_method) (dm_instance quiet_method) (VInt 1) some_args ?w2
             = Some ?w4"
    by (simp add: quiet_method_def passed_method_def probe_after_def)
  show "DecoratedMethod_call quiet_method some_args [] =
     (Inr (VInt 1),
      [(''h0'', Some 5, None, some_args), (''h1'', Some 5, None, some_args),
       (''base'', Some 5, None, some_args),
       (''g0'', Some 5, Some (VInt 1), some_args), (''g1'', Some 5, Some (VInt 1), some_args)])"
    using after_hooks_override [OF b f, of _ _ _ _ _ _ ?w4] q
    by simp
qed

section \<open>Decorating a decorated method\<close>

text \<open>
  C6. Applied to a DecoratedMethod (the object at address \<open>a\<close> of the heap), \<open>blocking\<close>
  and \<open>singular\<close> return the reference they were given and create no object; the only
  change of the heap is in that object: the tag joins its decoration set and, for
  \<open>singular\<close>, the acquire hook is put at the end of its before-hooks and the release
  hook at the end of its after-hooks, its function and receiver staying as they were.
  Two applications in a row leave their hooks in the order of application. (Applied
  to a plain function, by contrast, each decorator creates an object.)
\<close>

theorem decorating_decorated_appends:
  "fst (blocking (Decorated a) h) = Decorated a \<and>
   next_free (snd (blocking (Decorated a) h)) = next_free h \<and>
   objs (snd (blocking (Decorated a) h)) =
     (objs h)(a := (objs h a)\<lparr>decorations := insert ''blocking'' (decorations (objs h a))\<rparr>) \<and>
   fst (singular time (Decorated a) h) = Decorated a \<and>
   next_free (snd (singular time (Decorated a) h)) = next_free h \<and>
   objs (snd (singular time (Decorated a) h)) =
     (objs h)(a := (objs h a)
        \<lparr>decorations := insert ''singular'' (decorations (objs h a)),
         before := before (objs h a) @ [before_singular time (Decorated a)],
         after := after (objs h a) @ [after_singular (Decorated a)]\<rparr>) \<and>
   before (objs (snd (singular t2 (Decorated a) (snd (singular t1 (Decorated a) h)))) a) =
     before (objs h a) @ [before_singular t1 (Decorated a), before_singular t2 (Decorated a)] \<and>
   after (objs (snd (singular t2 (Decorated a) (snd (singular t1 (Decorated a) h)))) a) =
     after (objs h a) @ [after_singular (Decorated a), after_singular (Decorated a)] \<and>
   decorations (objs (snd (blocking (Decorated a) (snd (singular t1 (Decorated a) h)))) a) =
     insert ''blocking'' (insert ''singular'' (decorations (objs h a))) \<and>
   fst (blocking (Function f) h) = Decorated (next_free h) \<and>
   next_free (snd (blocking (Function f) h)) = Suc (next_free h) \<and>
   fst (singular time (Function g) h) = Decorated (next_free h) \<and>
   next_free (snd (singular time (Function g) h)) = Suc (next_free h)"
  by (simp add: new_object_def)

section \<open>The lock of singular\<close>







text \<open>
  The acquire hook of a named function on a receiver with a client \<open>r\<close>, path by path,
  in terms of what the client answers: \<open>w1\<close>, \<open>w2\<close> and \<open>w3\<close> are the worlds after
  \<open>setnx\<close>, \<open>get\<close> and \<open>getset\<close>.
\<close>

lemma before_singular_set:
  assumes "name_of func = Inr n" and "client_of self = Inr r"
    and "setnx r (lock_name singular_context n) (time w + 2 + 1) w = (True, w1)"
  shows "before_singular time func self a w =
           (Inr VNone, snd (expire r (lock_name singular_context n) 2 w1))"
  using assms by (simp add: before_singular_def give_ttl_def expiry_def)

lemma before_singular_held:
  assumes "name_of func = Inr n" and "client_of self = Inr r"
    and "setnx r (lock_name singular_context n) (time w + 2 + 1) w = (False, w1)"
    and "get r (lock_name singular_context n) w1 = (Some v, w2)"
    and "time w < v"
  shows "before_singular time func self a w = (Inr (VBool False), w2)"
  using assms by (simp add: before_singular_def float_of_def expiry_def)

lemma before_singular_expired:
  assumes "name_of func = Inr n" and "client_of self = Inr r"
    and "setnx r (lock_name singular_context n) (time w + 2 + 1) w = (False, w1)"
    and "get r (lock_name singular_context n) w1 = (Some v, w2)"
    and "\<not> time w < v"
    and "getset r (lock_name singular_context n) (time w + 2 + 1) w2 = (Some v', w3)"
  shows "before_singular time func self a w =
           (if time w < v' then (Inr (VBool False), w3)
            else (Inr VNone, snd (expire r (lock_name singular_context n) 2 w3)))"
  using assms by (simp add: before_singular_def float_of_def give_ttl_def expiry_def)

lemma before_singular_vanished:
  assumes "name_of func = Inr n" and "client_of self = Inr r"
    and "setnx r (lock_name singular_context n) (time w + 2 + 1) w = (False, w1)"
    and "get r (lock_name singular_context n) w1 = (None, w2)"
  shows "before_singular time func self a w = (Inl TypeError, w2)"
  using assms by (simp add: before_singular_def float_of_def expiry_def)

lemma lock_name_global: "lock_name singular_context n = ''global.lock:'' @ n"
  by (simp add: lock_name_def lock_context_def singular_context_def)

lemma lock_name_given: "c \<noteq> [] \<Longrightarrow> lock_name (Some c) n = c @ '':'' @ n"
  by (simp add: lock_name_def lock_context_def)



lemma acquire_held:
  "before_singular clock (Function incr) (Some worker) ([], [])
     \<lparr>clock = 101, kv = [''global.lock:incr'' \<mapsto> (103, Some 2)]\<rparr> =
   (Inr (VBool False), \<lparr>clock = 101, kv = [''global.lock:incr'' \<mapsto> (103, Some 2)]\<rparr>)"
  by (simp add: before_singular_def give_ttl_def expiry_def float_of_def client_of_def
      worker_def incr_def StrictRedis_def lock_name_global)

lemma acquire_expired:
  "before_singular clock (Function incr) (Some worker) ([], [])
     \<lparr>clock = 104, kv = [''global.lock:incr'' \<mapsto> (103, None)]\<rparr> =
   (Inr VNone, \<lparr>clock = 104, kv = [''global.lock:incr'' \<mapsto> (107, Some 2)]\<rparr>)"
  by (simp add: before_singular_def give_ttl_def expiry_def float_of_def client_of_def
      worker_def incr_def StrictRedis_def lock_name_global)

lemma acquire_lost_race:
  "before_singular clock (Function incr) (Some contending_worker) ([], [])
     \<lparr>clock = 104, kv = [''global.lock:incr'' \<mapsto> (103, None)]\<rparr> =
   (Inr (VBool False), \<lparr>clock = 104, kv = [''global.lock:incr'' \<mapsto> (107, None)]\<rparr>)"
  by (simp add: before_singular_def give_ttl_def expiry_def float_of_def client_of_def
      contending_worker_def incr_def StrictRedis_def ContendedRedis_def lock_name_global)

text \<open>
  C1, where the code departs from it. \<open>singular\<close> accepts a DecoratedMethod and hangs
  its hooks on it, but the hooks read \<open>func.__name__\<close> off that object, which has
  none: the acquire hook raises AttributeError before it forms a key or calls the
  client, on every receiver and in every world. So a method under
  \<open>@blocking\<close> with \<open>@singular\<close> on top raises on every call.
\<close>

theorem before_singular_on_decorated_raises:
  "before_singular time (Decorated a) self args w = (Inl AttributeError, w) \<and>
   before stacked_incr = [before_singular clock (Decorated 0)] \<and>
   dm_instance stacked_incr = Some worker \<and>
   DecoratedMethod_call stacked_incr args s = (Inl AttributeError, s)"
  by (simp add: before_singular_def stacked_incr_def new_object_def no_objects_def
      DecoratedMethod_init_def DecoratedMethod_get_def DecoratedMethod_call_def)

lemma decorated_hook_never_passes:
  "all_return_null (pre @ before_singular time (Decorated a) # post) i args w = None"
proof (induction pre arbitrary: w)
  case Nil
  show ?case
    by (simp add: before_singular_def)
next
  case (Cons p pre)
  then show ?case
    by (simp split: prod.splits sum.splits val.splits)
qed

lemma decorated_hook_stops_call:
  "before dm = pre @ before_singular time (Decorated a) # post \<Longrightarrow>
   run_before (before dm) (dm_instance dm) args w \<noteq> (Inr None, w')"
proof (induction pre arbitrary: w dm)
  case Nil
  then show ?case
    by (simp add: before_singular_def)
next
  case (Cons p pre)
  have "run_before (pre @ before_singular time (Decorated a) # post) (dm_instance dm) args w1
          \<noteq> (Inr None, w')" for w1
    using Cons.IH [of "dm\<lparr>before := pre @ before_singular time (Decorated a) # post\<rparr>" w1]
    by simp
  with Cons.prems show ?case
    by (simp split: prod.splits sum.splits)
qed



section \<open>The proxy: replies\<close>

lemma handler_pending:
  "response_queues p slot = Some q \<Longrightarrow>
   ActorProxy_handler p (slot, v) =
     (Inr (), p\<lparr>queues := (queues p)(q := queues p q @ [v]),
                response_queues := (response_queues p)(slot := None)\<rparr>)"
  by (simp add: ActorProxy_handler_def)

lemma handler_unknown:
  "response_queues p slot = None \<Longrightarrow> ActorProxy_handler p (slot, v) = (Inl KeyError, p)"
  by (simp add: ActorProxy_handler_def)

text \<open>
  C4, where the code departs from it. A response for a slot that is not pending is
  not dropped in silence: the handler raises KeyError (the registry and the queues
  stay as they were). On the proxy with no call pending, a response for \<open>s1\<close> raises.
  On the proxy where \<open>s1\<close> is pending, the first response is delivered (the value
  \<open>pong\<close> is in the slot's Queue, the entry is gone) and the second one raises.
\<close>

theorem handler_unknown_slot_raises:
  "ActorProxy_handler live_proxy (''s1'', VStr ''pong'') = (Inl KeyError, live_proxy) \<and>
   fst (ActorProxy_handler waiting_proxy (''s1'', VStr ''pong'')) = Inr () \<and>
   queues (snd (ActorProxy_handler waiting_proxy (''s1'', VStr ''pong''))) 0 = [VStr ''pong''] \<and>
   response_queues (snd (ActorProxy_handler waiting_proxy (''s1'', VStr ''pong''))) = Map.empty \<and>
   ActorProxy_handler (snd (ActorProxy_handler waiting_proxy (''s1'', VStr ''pong'')))
       (''s1'', VStr ''again'') =
     (Inl KeyError, snd (ActorProxy_handler waiting_proxy (''s1'', VStr ''pong'')))"
  by (simp add: ActorProxy_handler_def live_proxy_def waiting_proxy_def)

section \<open>The proxy: calls\<close>

text \<open>
  C5. When the actor's channel has no subscriber, \<open>_proxy\<close> raises
  \<open>Exception('No such actor')\<close>, and the registry, the Queue objects and the next
  free Queue address are what they were before the call.
\<close>

theorem no_such_actor_registry_unchanged:
  assumes "subscribers p (''actor:'' @ uuid p) = 0"
  shows "fst (ActorProxy_proxy p fresh m a) = Inl (Exception ''No such actor'') \<and>
         response_queues (snd (ActorProxy_proxy p fresh m a)) = response_queues p \<and>
         queues (snd (ActorProxy_proxy p fresh m a)) = queues p \<and>
         next_queue (snd (ActorProxy_proxy p fresh m a)) = next_queue p"
  using assms by (simp add: ActorProxy_proxy_def proxy_publish_def Let_def)

theorem no_such_actor_registry_unchanged_witness:
  "subscribers orphan_proxy (''actor:'' @ uuid orphan_proxy) = 0 \<and>
   fst (ActorProxy_proxy orphan_proxy ''s1'' ''ping'' ([], [])) = Inl (Exception ''No such actor'') \<and>
   response_queues (snd (ActorProxy_proxy orphan_proxy ''s1'' ''ping'' ([], []))) = Map.empty \<and>
   next_queue (snd (ActorProxy_proxy orphan_proxy ''s1'' ''ping'' ([], []))) = 0"
proof -
  have z: "subscribers orphan_proxy (''actor:'' @ uuid orphan_proxy) = 0"
    by (simp add: orphan_proxy_def live_proxy_def)
  have r: "response_queues orphan_proxy = Map.empty" "next_queue orphan_proxy = 0"
    by (simp_all add: orphan_proxy_def live_proxy_def)
  show ?thesis
    using z r no_such_actor_registry_unchanged [OF z, of "''s1''" "''ping''" "([], [])"]
    by simp
qed

lemma proxy_meanwhile_idle:
  "ActorProxy_proxy_meanwhile (\<lambda>p. p) p fresh m a = ActorProxy_proxy p fresh m a"
  by (simp add: ActorProxy_proxy_meanwhile_def ActorProxy_proxy_def Let_def)

text \<open>
  C9, where the code departs from it. The slot is not registered before the request
  is published: on the proxy of a live actor, in the state in which the request
  carrying the slot \<open>s1\<close> has been published, \<open>s1\<close> is not in the registry, and a
  response arriving then finds no entry (the handler raises KeyError). So when the
  actor's answer \<open>pong\<close> reaches the listener thread before \<open>_proxy\<close> has gone on, the
  answer is lost: \<open>_proxy\<close> returns the Queue \<open>0\<close>, registered under \<open>s1\<close> only now,
  and that Queue is empty.
\<close>

theorem reply_before_registration_lost:
  "published (snd (proxy_publish live_proxy ''s1'' ''ping'' ([], []))) =
     [(''actor:a1'',
       \<lparr>sender = ''p1'', reply_slot = ''s1'', method_name = ''ping'', arguments = ([], [])\<rparr>)] \<and>
   response_queues (snd (proxy_publish live_proxy ''s1'' ''ping'' ([], []))) ''s1'' = None \<and>
   fst (ActorProxy_handler (snd (proxy_publish live_proxy ''s1'' ''ping'' ([], [])))
          (''s1'', VStr ''pong'')) = Inl KeyError \<and>
   response_queues (snd (ActorProxy_proxy live_proxy ''s1'' ''ping'' ([], []))) ''s1'' = Some 0 \<and>
   fst (ActorProxy_proxy_meanwhile (listener_receives (''s1'', VStr ''pong''))
          live_proxy ''s1'' ''ping'' ([], [])) = Inr 0 \<and>
   response_queues
     (snd (ActorProxy_proxy_meanwhile (listener_receives (''s1'', VStr ''pong''))
             live_proxy ''s1'' ''ping'' ([], []))) ''s1'' = Some 0 \<and>
   queues
     (snd (ActorProxy_proxy_meanwhile (listener_receives (''s1'', VStr ''pong''))
             live_proxy ''s1'' ''ping'' ([], []))) 0 = []"
  by (simp add: proxy_publish_def ActorProxy_proxy_def ActorProxy_proxy_meanwhile_def
      listener_receives_def ActorProxy_handler_def live_proxy_def Let_def)

section \<open>The proxy: construction\<close>

lemma init_neither:
  "ActorProxy_init NoActor VNone pid fresh subs reply =
     Raises (Exception ''No actor or UUID provided'')"
  by (simp add: ActorProxy_init_def Let_def)

lemma init_uuid_no_actor:
  "subs (''actor:'' @ u) = 0 \<Longrightarrow> ''proxy:'' @ pid \<noteq> ''actor:'' @ u \<Longrightarrow>
   ActorProxy_init NoActor (VStr u) pid fresh subs reply = Raises (Exception ''No such actor'')"
  by (simp add: ActorProxy_init_def ActorProxy_proxy_def proxy_publish_def Let_def)

text \<open>
  C8, where the code departs from it. With neither argument the constructor raises
  (lemma \<open>init_neither\<close>). Given both an Actor instance and an identifier, it does
  not: the first branch takes the instance and the identifier is never looked at, so
  the constructor returns a proxy of the instance, with the instance's public
  methods installed, whatever the identifier is.
\<close>

theorem init_with_both_returns:
  "ActorProxy_init (ActorInstance ''a1'' [''_get_methods'', ''ping'']) (VStr u) pid fresh subs reply =
     Returns
       \<lparr>uuid = ''a1'', proxyid = pid, response_queues = Map.empty, queues = (\<lambda>_. []),
        next_queue = 0,
        subscribers = subs(''proxy:'' @ pid := Suc (subs (''proxy:'' @ pid))),
        published = [], proxied = [''ping'']\<rparr>"
  by (simp add: ActorProxy_init_def Let_def)

end
